theory Spec2Isabelle
  imports Main
begin

section \<open>The Crossbill API client: credential lifecycle and authenticated requests\<close>

text \<open>
  A shallow embedding of the class \<open>CrossbillAPI\<close> of \<open>src/api.ts\<close>. The object's fields
  are a record that every method takes and returns. What the methods do to the outside
  world (a call of \<open>fetch\<close>, a reading of \<open>Date.now()\<close>, a call of the \<open>onTokenUpdate\<close>
  callback) is appended to a trace of events, oldest first; what the outside world
  answers is read from an environment of oracles, each a function of the trace so far.
  A thrown \<open>Error\<close> (a rejected promise) is the \<open>Inl\<close> branch of a sum.

  Numbers are integers: \<open>Date.now()\<close> and \<open>tokenExpiresAt\<close> are milliseconds since the
  epoch, \<open>expires_in\<close> is whole seconds (the values the interface \<open>LoginResponse\<close>
  documents). A body that \<open>response.json()\<close> parses is taken to be an object of that
  interface, as the type annotation of lines 95 and 150 has it: \<open>body_json = None\<close>
  stands for the rejection of \<open>response.json()\<close> only, and a parsed body that lacks
  the fields is outside the model.
\<close>

subsection \<open>Data\<close>

record LoginResponse =
  access_token :: string
  refresh_token :: string
  token_type :: string
  expires_in :: int

text \<open>
  A \<open>Response\<close> as the client reads it: \<open>status\<close>, \<open>statusText\<close>, the outcome of
  \<open>response.text()\<close> and of \<open>response.json()\<close> (\<open>None\<close> when the promise rejects).
\<close>

datatype response =
  Response (status: nat) (statusText: string) (body_text: "string option")
    (body_json: "LoginResponse option")

text \<open>\<open>response.ok\<close>: the status is in the range 200 to 299.\<close>

definition ok :: "response \<Rightarrow> bool" where
  "ok r = (200 \<le> status r \<and> status r \<le> 299)"

text \<open>
  The three kinds of request the class sends: the refresh exchange (server host and the
  refresh token of the JSON body), the login exchange (server host and the form fields
  \<open>username\<close>, \<open>password\<close>), and a call of a protected endpoint (its URL and the bearer
  token of the \<open>Authorization\<close> header, \<open>None\<close> when \<open>getAuthHeaders\<close> returns \<open>{}\<close>).
\<close>

datatype request =
  RefreshRequest string string
  | LoginRequest string string string
  | TargetRequest string "string option"

datatype event =
  Fetched request "response option"
  | ClockRead int
  | Notified string string int

text \<open>
  The environment: \<open>server\<close> answers a request (\<open>None\<close>: \<open>fetch\<close> itself rejects, a
  network-level failure), \<open>clock\<close> is the value \<open>Date.now()\<close> returns.
\<close>

record env =
  server :: "event list \<Rightarrow> request \<Rightarrow> response option"
  clock :: "event list \<Rightarrow> int"

text \<open>
  The fields of the class. \<open>tokenExpiresAt\<close> is \<open>number | null\<close>; the optional callback
  \<open>onTokenUpdate\<close> is modelled by its outcome: \<open>True\<close> when the promise it returns
  resolves, \<open>False\<close> when it rejects. The callback is taken not to write the fields of
  the object it is registered on.
\<close>

record CrossbillAPI =
  serverHost :: string
  bearerToken :: string
  refreshToken :: string
  tokenExpiresAt :: "int option"
  email :: string
  password :: string
  onTokenUpdate :: "(string \<Rightarrow> string \<Rightarrow> int \<Rightarrow> bool) option"

text \<open>
  The errors a method can throw: the two \<open>throw new Error\<close> of the source
  (\<open>MissingCredentials\<close>: "No credentials provided ..."; \<open>LoginFailed\<close>: "Login failed
  (status): text"), and the rejections of awaited promises that nothing catches.
\<close>

datatype err =
  MissingCredentials
  | LoginFailed nat string
  | FetchRejected
  | BodyUnreadable
  | CallbackRejected

subsection \<open>Effects\<close>

definition fetch :: "env \<Rightarrow> event list \<Rightarrow> request \<Rightarrow> response option \<times> event list" where
  "fetch en tr rq = (let rp = server en tr rq in (rp, tr @ [Fetched rq rp]))"

definition Date_now :: "env \<Rightarrow> event list \<Rightarrow> int \<times> event list" where
  "Date_now en tr = (let t = clock en tr in (t, tr @ [ClockRead t]))"

subsection \<open>Methods\<close>

text \<open>
  \<open>isTokenExpired\<close> (lines 66 to 72). \<open>!this.tokenExpiresAt\<close> holds for \<open>null\<close> and for
  the number 0; the clock is read only otherwise.
\<close>

definition isTokenExpired :: "env \<Rightarrow> CrossbillAPI \<Rightarrow> event list \<Rightarrow> bool \<times> event list" where
  "isTokenExpired en s tr =
     (case tokenExpiresAt s of
        None \<Rightarrow> (True, tr)
      | Some e \<Rightarrow>
          if e = 0 then (True, tr)
          else (case Date_now en tr of (t, tr1) \<Rightarrow> (t > e - 60000, tr1)))"

text \<open>
  The statements that \<open>refreshAccessToken\<close> (lines 96 to 103) and \<open>login\<close> (lines 151 to
  158) share word for word: store the three token fields, then await the callback when
  one is set. The boolean is \<open>False\<close> when the callback rejects.
\<close>

definition storeTokens ::
  "env \<Rightarrow> CrossbillAPI \<Rightarrow> event list \<Rightarrow> LoginResponse \<Rightarrow> bool \<times> CrossbillAPI \<times> event list" where
  "storeTokens en s tr d =
     (case Date_now en tr of (t, tr1) \<Rightarrow>
        (let s1 = s\<lparr>bearerToken := access_token d, refreshToken := refresh_token d,
                    tokenExpiresAt := Some (t + expires_in d * 1000)\<rparr>
         in case onTokenUpdate s1 of
              None \<Rightarrow> (True, s1, tr1)
            | Some cb \<Rightarrow>
                (cb (bearerToken s1) (refreshToken s1) (t + expires_in d * 1000), s1,
                 tr1 @ [Notified (bearerToken s1) (refreshToken s1) (t + expires_in d * 1000)])))"

text \<open>The two assignments of lines 90 to 91 and of lines 107 to 108.\<close>

definition clearRefresh :: "CrossbillAPI \<Rightarrow> CrossbillAPI" where
  "clearRefresh s = s\<lparr>refreshToken := [], tokenExpiresAt := None\<rparr>"

text \<open>
  \<open>refreshAccessToken\<close> (lines 74 to 111). Everything from the \<open>fetch\<close> on is inside
  \<open>try\<close>: a rejected \<open>fetch\<close>, an unreadable body and a rejected callback all reach the
  \<open>catch\<close> block.
\<close>

definition refreshAccessToken ::
  "env \<Rightarrow> CrossbillAPI \<Rightarrow> event list \<Rightarrow> bool \<times> CrossbillAPI \<times> event list" where
  "refreshAccessToken en s tr =
     (if refreshToken s = [] then (False, s, tr)
      else (case fetch en tr (RefreshRequest (serverHost s) (refreshToken s)) of
        (rp, tr1) \<Rightarrow>
          (case rp of
             None \<Rightarrow> (False, clearRefresh s, tr1)
           | Some r \<Rightarrow>
               if \<not> ok r then (False, clearRefresh s, tr1)
               else (case body_json r of
                  None \<Rightarrow> (False, clearRefresh s, tr1)
                | Some d \<Rightarrow>
                    (case storeTokens en s tr1 d of
                       (saved, s2, tr2) \<Rightarrow>
                         if saved then (True, s2, tr2)
                         else (False, clearRefresh s2, tr2))))))"

text \<open>
  \<open>login\<close> (lines 132 to 161). Nothing is caught here: a rejected \<open>fetch\<close>, an
  unreadable body and a rejected callback are thrown to the caller. The message of
  \<open>LoginFailed\<close> is \<open>errorText || response.statusText\<close>.
\<close>

definition login ::
  "env \<Rightarrow> CrossbillAPI \<Rightarrow> event list \<Rightarrow> string \<Rightarrow> string
     \<Rightarrow> (err + LoginResponse) \<times> CrossbillAPI \<times> event list" where
  "login en s tr em pw =
     (case fetch en tr (LoginRequest (serverHost s) em pw) of
        (rp, tr1) \<Rightarrow>
          (case rp of
             None \<Rightarrow> (Inl FetchRejected, s, tr1)
           | Some r \<Rightarrow>
               if \<not> ok r then
                 (case body_text r of
                    None \<Rightarrow> (Inl BodyUnreadable, s, tr1)
                  | Some errorText \<Rightarrow>
                      (Inl (LoginFailed (status r)
                         (if errorText = [] then statusText r else errorText)), s, tr1))
               else (case body_json r of
                  None \<Rightarrow> (Inl BodyUnreadable, s, tr1)
                | Some d \<Rightarrow>
                    (case storeTokens en s tr1 d of
                       (saved, s2, tr2) \<Rightarrow>
                         if saved then (Inr d, s2, tr2)
                         else (Inl CallbackRejected, s2, tr2)))))"

text \<open>
  The condition of line 115, \<open>this.bearerToken && !this.isTokenExpired()\<close>: with an
  empty token \<open>isTokenExpired\<close> is not called.
\<close>

definition hasValidToken :: "env \<Rightarrow> CrossbillAPI \<Rightarrow> event list \<Rightarrow> bool \<times> event list" where
  "hasValidToken en s tr =
     (if bearerToken s = [] then (False, tr)
      else (case isTokenExpired en s tr of (expired, tr1) \<Rightarrow> (\<not> expired, tr1)))"

text \<open>
  The condition of lines 120 and 185, \<open>this.refreshToken && await
  this.refreshAccessToken()\<close>.
\<close>

definition tryRefresh ::
  "env \<Rightarrow> CrossbillAPI \<Rightarrow> event list \<Rightarrow> bool \<times> CrossbillAPI \<times> event list" where
  "tryRefresh en s tr =
     (if refreshToken s = [] then (False, s, tr) else refreshAccessToken en s tr)"

text \<open>\<open>ensureAuthenticated\<close> (lines 113 to 130).\<close>

definition ensureAuthenticated ::
  "env \<Rightarrow> CrossbillAPI \<Rightarrow> event list \<Rightarrow> (err + unit) \<times> CrossbillAPI \<times> event list" where
  "ensureAuthenticated en s tr =
     (case hasValidToken en s tr of
        (valid, tr0) \<Rightarrow>
          if valid then (Inr (), s, tr0)
          else (case tryRefresh en s tr0 of
            (refreshed, s1, tr1) \<Rightarrow>
              if refreshed then (Inr (), s1, tr1)
              else if email s1 = [] \<or> password s1 = [] then (Inl MissingCredentials, s1, tr1)
              else (case login en s1 tr1 (email s1) (password s1) of
                (Inl e, s2, tr2) \<Rightarrow> (Inl e, s2, tr2)
              | (Inr d, s2, tr2) \<Rightarrow> (Inr (), s2, tr2))))"

text \<open>\<open>getAuthHeaders\<close> (lines 163 to 170).\<close>

definition getAuthHeaders :: "CrossbillAPI \<Rightarrow> string option" where
  "getAuthHeaders s = (if bearerToken s = [] then None else Some (bearerToken s))"

text \<open>
  \<open>await fetch(url, { ...options, headers })\<close> of lines 175 to 180, 186 to 190 and 195
  to 199: the headers are built from \<open>getAuthHeaders\<close>, and the outcome is the
  response, or the rejection of \<open>fetch\<close> thrown to the caller.
\<close>

definition dispatch ::
  "env \<Rightarrow> CrossbillAPI \<Rightarrow> event list \<Rightarrow> string \<Rightarrow> (err + response) \<times> CrossbillAPI \<times> event list" where
  "dispatch en s tr url =
     (case fetch en tr (TargetRequest url (getAuthHeaders s)) of
        (None, tr1) \<Rightarrow> (Inl FetchRejected, s, tr1)
      | (Some r, tr1) \<Rightarrow> (Inr r, s, tr1))"

text \<open>
  \<open>authenticatedFetch\<close> (lines 172 to 203). The same URL and options go to every
  dispatch; only the bearer token differs.
\<close>

definition authenticatedFetch ::
  "env \<Rightarrow> CrossbillAPI \<Rightarrow> event list \<Rightarrow> string \<Rightarrow> (err + response) \<times> CrossbillAPI \<times> event list" where
  "authenticatedFetch en s tr url =
     (case ensureAuthenticated en s tr of
        (Inl e, s1, tr1) \<Rightarrow> (Inl e, s1, tr1)
      | (Inr u, s1, tr1) \<Rightarrow>
          (case dispatch en s1 tr1 url of
             (Inl e, s2, tr2) \<Rightarrow> (Inl e, s2, tr2)
           | (Inr r, s2, tr2) \<Rightarrow>
               if status r = 401 then
                 (case tryRefresh en (s2\<lparr>bearerToken := []\<rparr>) tr2 of
                    (refreshed, s3, tr3) \<Rightarrow>
                      if refreshed then dispatch en s3 tr3 url
                      else (case ensureAuthenticated en s3 tr3 of
                         (Inl e, s4, tr4) \<Rightarrow> (Inl e, s4, tr4)
                       | (Inr u, s4, tr4) \<Rightarrow> dispatch en s4 tr4 url))
               else (Inr r, s2, tr2)))"

subsection \<open>Observations on a trace\<close>

text \<open>A dispatch of a protected endpoint, and any call of \<open>fetch\<close>.\<close>

fun is_dispatch :: "event \<Rightarrow> bool" where
  "is_dispatch (Fetched (TargetRequest url tok) rp) = True"
| "is_dispatch ev = False"

fun is_fetch :: "event \<Rightarrow> bool" where
  "is_fetch (Fetched rq rp) = True"
| "is_fetch ev = False"

definition dispatches :: "event list \<Rightarrow> nat" where
  "dispatches tr = length (filter is_dispatch tr)"

definition network_calls :: "event list \<Rightarrow> event list" where
  "network_calls tr = filter is_fetch tr"

text \<open>The value of the latest reading of \<open>Date.now()\<close> in a trace.\<close>

fun last_reading :: "event list \<Rightarrow> int option" where
  "last_reading [] = None"
| "last_reading (ev # tr) =
     (case last_reading tr of
        Some t \<Rightarrow> Some t
      | None \<Rightarrow> (case ev of ClockRead t \<Rightarrow> Some t | _ \<Rightarrow> None))"

text \<open>What \<open>return await fetch(...)\<close> gives for an answer of the server.\<close>

definition delivered :: "response option \<Rightarrow> err + response" where
  "delivered rp = (case rp of None \<Rightarrow> Inl FetchRejected | Some r \<Rightarrow> Inr r)"

subsection \<open>Sample environments and objects\<close>

text \<open>
  Concrete inputs for the evaluations below. \<open>granting n\<close> is a server that answers every
  request with status 200 and tokens that live \<open>n\<close> seconds; \<open>revoking n\<close> answers the
  protected endpoints with 401 and the token exchanges as \<open>granting n\<close> does; \<open>denying\<close>
  answers everything with 403; \<open>offline\<close> lets every \<open>fetch\<close> reject. The clock of all
  four reads 1000000.
\<close>

definition sample_tokens :: "int \<Rightarrow> LoginResponse" where
  "sample_tokens n =
     \<lparr>access_token = ''new'', refresh_token = ''r1'', token_type = ''bearer'', expires_in = n\<rparr>"

definition granting :: "int \<Rightarrow> env" where
  "granting n =
     \<lparr>server = (\<lambda>tr rq. Some (Response 200 ''OK'' (Some []) (Some (sample_tokens n)))),
      clock = (\<lambda>tr. 1000000)\<rparr>"

definition revoking :: "int \<Rightarrow> env" where
  "revoking n =
     \<lparr>server = (\<lambda>tr rq. case rq of
         TargetRequest url tok \<Rightarrow> Some (Response 401 ''Unauthorized'' (Some []) None)
       | _ \<Rightarrow> Some (Response 200 ''OK'' (Some []) (Some (sample_tokens n)))),
      clock = (\<lambda>tr. 1000000)\<rparr>"

definition denying :: env where
  "denying =
     \<lparr>server = (\<lambda>tr rq. Some (Response 403 ''Forbidden'' (Some ''locked'') None)),
      clock = (\<lambda>tr. 1000000)\<rparr>"

definition offline :: env where
  "offline = \<lparr>server = (\<lambda>tr rq. None), clock = (\<lambda>tr. 1000000)\<rparr>"

text \<open>A callback whose promise resolves, and one whose promise rejects.\<close>

definition resolving :: "string \<Rightarrow> string \<Rightarrow> int \<Rightarrow> bool" where
  "resolving a r e = True"

definition rejecting :: "string \<Rightarrow> string \<Rightarrow> int \<Rightarrow> bool" where
  "rejecting a r e = False"

text \<open>
  An object as the constructor leaves it when it is given a server host, an email and a
  password only.
\<close>

definition configured :: CrossbillAPI where
  "configured =
     \<lparr>serverHost = ''h'', bearerToken = [], refreshToken = [], tokenExpiresAt = None,
      email = ''e'', password = ''p'', onTokenUpdate = None\<rparr>"

text \<open>The fields that only the constructor and \<open>setCredentials\<close> write.\<close>

definition same_config :: "CrossbillAPI \<Rightarrow> CrossbillAPI \<Rightarrow> bool" where
  "same_config s s' = (email s' = email s \<and> password s' = password s
      \<and> serverHost s' = serverHost s \<and> onTokenUpdate s' = onTokenUpdate s)"

section \<open>Properties\<close>

subsection \<open>Auxiliary facts\<close>

lemma ok_simps: "ok (Response st a b c) = (200 \<le> st \<and> st \<le> 299)"
  by (simp add: ok_def)

lemmas run_defs =
  authenticatedFetch_def dispatch_def getAuthHeaders_def
  ensureAuthenticated_def hasValidToken_def isTokenExpired_def tryRefresh_def
  refreshAccessToken_def login_def clearRefresh_def
  fetch_def storeTokens_def Date_now_def ok_simps Let_def
  granting_def revoking_def denying_def offline_def configured_def sample_tokens_def
  resolving_def rejecting_def

lemma last_reading_append:
  "last_reading (xs @ ys) = (case last_reading ys of Some t \<Rightarrow> Some t | None \<Rightarrow> last_reading xs)"
  by (induction xs) (auto split: option.splits event.splits)

lemma dispatches_append: "dispatches (xs @ ys) = dispatches xs + dispatches ys"
  by (simp add: dispatches_def)

text \<open>What the shared statements of \<open>refreshAccessToken\<close> and \<open>login\<close> compute.\<close>

lemma storeTokens_result:
  "storeTokens en s tr d =
     ((case onTokenUpdate s of None \<Rightarrow> True
        | Some cb \<Rightarrow> cb (access_token d) (refresh_token d) (clock en tr + expires_in d * 1000)),
      s\<lparr>bearerToken := access_token d, refreshToken := refresh_token d,
        tokenExpiresAt := Some (clock en tr + expires_in d * 1000)\<rparr>,
      tr @ ClockRead (clock en tr) #
        (case onTokenUpdate s of None \<Rightarrow> []
         | Some cb \<Rightarrow> [Notified (access_token d) (refresh_token d) (clock en tr + expires_in d * 1000)]))"
  by (simp add: storeTokens_def Date_now_def Let_def split: option.splits)

lemma hasValidToken_result:
  "hasValidToken en s tr =
     (if bearerToken s \<noteq> [] \<and> (\<exists>e. tokenExpiresAt s = Some e \<and> e \<noteq> 0)
      then (clock en tr \<le> the (tokenExpiresAt s) - 60000, tr @ [ClockRead (clock en tr)])
      else (False, tr))"
  by (auto simp: hasValidToken_def isTokenExpired_def Date_now_def Let_def split: option.splits)

lemma dispatch_result:
  "dispatch en s tr url =
     (delivered (server en tr (TargetRequest url (getAuthHeaders s))), s,
      tr @ [Fetched (TargetRequest url (getAuthHeaders s))
              (server en tr (TargetRequest url (getAuthHeaders s)))])"
  by (simp add: dispatch_def fetch_def delivered_def Let_def split: option.splits)

text \<open>The paths through \<open>ensureAuthenticated\<close>, as a rule for case analysis.\<close>

lemma ensureAuthenticated_cases:
  assumes "ensureAuthenticated en s tr = (res, s', tr')"
  obtains
    (hot) "hasValidToken en s tr = (True, tr')" "res = Inr ()" "s' = s"
  | (refreshed) tr0 where "hasValidToken en s tr = (False, tr0)"
      "tryRefresh en s tr0 = (True, s', tr')" "res = Inr ()"
  | (missing) tr0 where "hasValidToken en s tr = (False, tr0)"
      "tryRefresh en s tr0 = (False, s', tr')" "email s' = [] \<or> password s' = []"
      "res = Inl MissingCredentials"
  | (login_failed) tr0 s1 tr1 e where "hasValidToken en s tr = (False, tr0)"
      "tryRefresh en s tr0 = (False, s1, tr1)" "email s1 \<noteq> []" "password s1 \<noteq> []"
      "login en s1 tr1 (email s1) (password s1) = (Inl e, s', tr')" "res = Inl e"
  | (logged_in) tr0 s1 tr1 d where "hasValidToken en s tr = (False, tr0)"
      "tryRefresh en s tr0 = (False, s1, tr1)" "email s1 \<noteq> []" "password s1 \<noteq> []"
      "login en s1 tr1 (email s1) (password s1) = (Inr d, s', tr')" "res = Inr ()"
proof -
  obtain valid tr0 where hv: "hasValidToken en s tr = (valid, tr0)"
    by (cases "hasValidToken en s tr")
  obtain refreshed s1 tr1 where rf: "tryRefresh en s tr0 = (refreshed, s1, tr1)"
    by (cases "tryRefresh en s tr0")
  obtain lr s2 tr2 where lg: "login en s1 tr1 (email s1) (password s1) = (lr, s2, tr2)"
    by (cases "login en s1 tr1 (email s1) (password s1)")
  show thesis
  proof (cases valid)
    case True
    with assms hv show thesis by (intro hot) (simp_all add: ensureAuthenticated_def)
  next
    case nv: False
    show thesis
    proof (cases refreshed)
      case True
      with assms hv rf nv show thesis
        by (intro refreshed [of tr0]) (simp_all add: ensureAuthenticated_def)
    next
      case nr: False
      show thesis
      proof (cases "email s1 = [] \<or> password s1 = []")
        case True
        with assms hv rf nv nr show thesis
          by (intro missing [of tr0]) (simp_all add: ensureAuthenticated_def)
      next
        case cr: False
        show thesis
        proof (cases lr)
          case (Inl e)
          with assms hv rf nv nr cr lg show thesis
            by (intro login_failed [of tr0 s1 tr1 e]) (simp_all add: ensureAuthenticated_def)
        next
          case (Inr d)
          with assms hv rf nv nr cr lg show thesis
            by (intro logged_in [of tr0 s1 tr1 d]) (simp_all add: ensureAuthenticated_def)
        qed
      qed
    qed
  qed
qed

text \<open>A successful exchange ends in the shared statements, run on the answer's tokens.\<close>

lemma refresh_success:
  assumes "refreshAccessToken en s tr = (True, s', tr')"
  shows "\<exists>r d. server en tr (RefreshRequest (serverHost s) (refreshToken s)) = Some r \<and> ok r
           \<and> body_json r = Some d
           \<and> storeTokens en s
                (tr @ [Fetched (RefreshRequest (serverHost s) (refreshToken s)) (Some r)]) d
               = (True, s', tr')"
  using assms
  by (auto simp: refreshAccessToken_def fetch_def Let_def split: if_splits option.splits prod.splits)

lemma login_success:
  assumes "login en s tr em pw = (Inr d, s', tr')"
  shows "\<exists>r. server en tr (LoginRequest (serverHost s) em pw) = Some r \<and> ok r
           \<and> body_json r = Some d
           \<and> storeTokens en s (tr @ [Fetched (LoginRequest (serverHost s) em pw) (Some r)]) d
               = (True, s', tr')"
  using assms
  by (auto simp: login_def fetch_def Let_def split: if_splits option.splits prod.splits)

lemma storeTokens_usable:
  assumes "storeTokens en s tr d = (b, s', tr')" and "access_token d \<noteq> []"
    and "60 \<le> expires_in d"
  shows "bearerToken s' \<noteq> [] \<and>
    (\<exists>e t. tokenExpiresAt s' = Some e \<and> last_reading tr' = Some t \<and> t \<le> e - 60000)"
  using assms
  by (auto simp: storeTokens_result last_reading_append split: option.splits)

text \<open>Only \<open>dispatch\<close> calls a protected endpoint.\<close>

lemma refresh_dispatches: "dispatches (snd (snd (refreshAccessToken en s tr))) = dispatches tr"
  by (simp add: refreshAccessToken_def fetch_def storeTokens_result Let_def
      dispatches_def split: option.splits)

lemma login_dispatches: "dispatches (snd (snd (login en s tr em pw))) = dispatches tr"
  by (simp add: login_def fetch_def storeTokens_result Let_def
      dispatches_def split: option.splits)

lemma tryRefresh_dispatches:
  "tryRefresh en s tr = (b, s', tr') \<Longrightarrow> dispatches tr' = dispatches tr"
  using refresh_dispatches [of en s tr] by (auto simp: tryRefresh_def split: if_splits)

lemma hasValidToken_dispatches:
  "hasValidToken en s tr = (b, tr') \<Longrightarrow> dispatches tr' = dispatches tr"
  by (auto simp: hasValidToken_result dispatches_def split: if_splits)

lemma ensure_dispatches:
  assumes "ensureAuthenticated en s tr = (res, s', tr')"
  shows "dispatches tr' = dispatches tr"
  using assms
proof (cases rule: ensureAuthenticated_cases)
  case hot
  then show ?thesis by (simp add: hasValidToken_dispatches)
next
  case (refreshed tr0)
  then show ?thesis by (simp add: hasValidToken_dispatches tryRefresh_dispatches)
next
  case (missing tr0)
  then show ?thesis by (simp add: hasValidToken_dispatches tryRefresh_dispatches)
next
  case (login_failed tr0 s1 tr1 e)
  then show ?thesis
    using login_dispatches [of en s1 tr1 "email s1" "password s1"]
    by (simp add: hasValidToken_dispatches tryRefresh_dispatches)
next
  case (logged_in tr0 s1 tr1 d)
  then show ?thesis
    using login_dispatches [of en s1 tr1 "email s1" "password s1"]
    by (simp add: hasValidToken_dispatches tryRefresh_dispatches)
qed

lemma dispatch_counts:
  assumes "dispatch en s tr url = (res, s', tr')"
  shows "dispatches tr' = dispatches tr + 1
    \<and> (\<exists>pre tok. tr' = pre @ [Fetched (TargetRequest url tok) (server en pre (TargetRequest url tok))]
          \<and> res = delivered (server en pre (TargetRequest url tok)))"
  using assms by (auto simp: dispatch_result dispatches_def)

text \<open>No method writes the email, the password, the server host or the callback.\<close>

lemma same_config_trans: "same_config a b \<Longrightarrow> same_config b c \<Longrightarrow> same_config a c"
  by (simp add: same_config_def)

lemma refresh_frame: "same_config s (fst (snd (refreshAccessToken en s tr)))"
  by (simp add: refreshAccessToken_def same_config_def fetch_def storeTokens_result
      clearRefresh_def Let_def split: option.splits)

lemma login_frame: "same_config s (fst (snd (login en s tr em pw)))"
  by (simp add: login_def same_config_def fetch_def storeTokens_result Let_def
      split: option.splits)

lemma tryRefresh_frame: "tryRefresh en s tr = (b, s', tr') \<Longrightarrow> same_config s s'"
  using refresh_frame [of s en tr]
  by (auto simp: tryRefresh_def same_config_def split: if_splits)

lemma ensure_frame:
  assumes "ensureAuthenticated en s tr = (res, s', tr')"
  shows "same_config s s'"
  using assms
proof (cases rule: ensureAuthenticated_cases)
  case hot
  then show ?thesis by (simp add: same_config_def)
next
  case (refreshed tr0)
  then show ?thesis by (simp add: tryRefresh_frame)
next
  case (missing tr0)
  then show ?thesis by (simp add: tryRefresh_frame)
next
  case (login_failed tr0 s1 tr1 e)
  then show ?thesis
    using login_frame [of s1 en tr1 "email s1" "password s1"] tryRefresh_frame [of en s tr0]
    by (auto intro: same_config_trans)
next
  case (logged_in tr0 s1 tr1 d)
  then show ?thesis
    using login_frame [of s1 en tr1 "email s1" "password s1"] tryRefresh_frame [of en s tr0]
    by (auto intro: same_config_trans)
qed

lemma dispatch_frame: "dispatch en s tr url = (res, s', tr') \<Longrightarrow> s' = s"
  by (simp add: dispatch_result)

lemma authenticatedFetch_frame:
  assumes run: "authenticatedFetch en s tr url = (res, s', tr')"
  shows "same_config s s'"
proof -
  obtain res1 s1 tr1 where e1: "ensureAuthenticated en s tr = (res1, s1, tr1)"
    by (cases "ensureAuthenticated en s tr")
  have f1: "same_config s s1" using e1 by (rule ensure_frame)
  show ?thesis
  proof (cases res1)
    case (Inl e)
    with run e1 f1 show ?thesis by (simp add: authenticatedFetch_def)
  next
    case (Inr u)
    obtain res2 s2 tr2 where p2: "dispatch en s1 tr1 url = (res2, s2, tr2)"
      by (cases "dispatch en s1 tr1 url")
    have f2: "same_config s s2" using dispatch_frame [OF p2] f1 by simp
    show ?thesis
    proof (cases res2)
      case (Inl e)
      with run e1 Inr p2 f2 show ?thesis by (simp add: authenticatedFetch_def)
    next
      case r: (Inr r)
      show ?thesis
      proof (cases "status r = 401")
        case False
        with run e1 Inr p2 r f2 show ?thesis by (simp add: authenticatedFetch_def)
      next
        case True
        obtain b s3 tr3 where t3: "tryRefresh en (s2\<lparr>bearerToken := []\<rparr>) tr2 = (b, s3, tr3)"
          by (cases "tryRefresh en (s2\<lparr>bearerToken := []\<rparr>) tr2")
        have "same_config s (s2\<lparr>bearerToken := []\<rparr>)"
          using f2 by (simp add: same_config_def)
        then have f3: "same_config s s3"
          using tryRefresh_frame [OF t3] by (rule same_config_trans)
        show ?thesis
        proof (cases b)
          case True
          with run e1 Inr p2 r \<open>status r = 401\<close> t3
          have "dispatch en s3 tr3 url = (res, s', tr')" by (simp add: authenticatedFetch_def)
          from dispatch_frame [OF this] f3 show ?thesis by simp
        next
          case False
          obtain res4 s4 tr4 where e4: "ensureAuthenticated en s3 tr3 = (res4, s4, tr4)"
            by (cases "ensureAuthenticated en s3 tr3")
          have f4: "same_config s s4"
            using f3 ensure_frame [OF e4] by (rule same_config_trans)
          show ?thesis
          proof (cases res4)
            case (Inl e)
            with run e1 Inr p2 r \<open>status r = 401\<close> t3 False e4 f4 show ?thesis
              by (simp add: authenticatedFetch_def)
          next
            case u4: (Inr u4)
            with run e1 Inr p2 r \<open>status r = 401\<close> t3 False e4
            have "dispatch en s4 tr4 url = (res, s', tr')" by (simp add: authenticatedFetch_def)
            from dispatch_frame [OF this] f4 show ?thesis by simp
          qed
        qed
      qed
    qed
  qed
qed

text \<open>
  Every method only appends to the trace, and only \<open>dispatch\<close> appends a call of a
  protected endpoint.
\<close>

lemma hasValidToken_extends:
  "hasValidToken en s tr = (b, tr') \<Longrightarrow> \<exists>x. tr' = tr @ x \<and> dispatches x = 0"
  by (auto simp: hasValidToken_result dispatches_def split: if_splits)

lemma refresh_extends:
  "refreshAccessToken en s tr = (b, s', tr') \<Longrightarrow> \<exists>x. tr' = tr @ x \<and> dispatches x = 0"
  by (auto simp: refreshAccessToken_def fetch_def storeTokens_result Let_def dispatches_def
      split: if_splits option.splits)

lemma login_extends:
  "login en s tr em pw = (res, s', tr') \<Longrightarrow> \<exists>x. tr' = tr @ x \<and> dispatches x = 0"
  by (auto simp: login_def fetch_def storeTokens_result Let_def dispatches_def
      split: if_splits option.splits)

lemma tryRefresh_extends:
  "tryRefresh en s tr = (b, s', tr') \<Longrightarrow> \<exists>x. tr' = tr @ x \<and> dispatches x = 0"
  using refresh_extends [of en s tr b s' tr']
  by (auto simp: tryRefresh_def dispatches_def split: if_splits)

lemma extends_trans:
  assumes "\<exists>x. b = a @ x \<and> dispatches x = 0" and "\<exists>y. c = b @ y \<and> dispatches y = 0"
  shows "\<exists>z. c = a @ z \<and> dispatches z = 0"
proof -
  from assms obtain x y where "b = a @ x" "dispatches x = 0" "c = b @ y" "dispatches y = 0"
    by blast
  then have "c = a @ (x @ y) \<and> dispatches (x @ y) = 0"
    by (simp add: dispatches_append)
  then show ?thesis by blast
qed

lemma ensure_extends:
  assumes "ensureAuthenticated en s tr = (res, s', tr')"
  shows "\<exists>x. tr' = tr @ x \<and> dispatches x = 0"
  using assms
proof (cases rule: ensureAuthenticated_cases)
  case hot
  then show ?thesis by (simp add: hasValidToken_extends)
next
  case (refreshed tr0)
  then show ?thesis
    using extends_trans [OF hasValidToken_extends tryRefresh_extends] by blast
next
  case (missing tr0)
  then show ?thesis
    using extends_trans [OF hasValidToken_extends tryRefresh_extends] by blast
next
  case (login_failed tr0 s1 tr1 e)
  then show ?thesis
    using extends_trans [OF extends_trans [OF hasValidToken_extends tryRefresh_extends]
        login_extends] by blast
next
  case (logged_in tr0 s1 tr1 d)
  then show ?thesis
    using extends_trans [OF extends_trans [OF hasValidToken_extends tryRefresh_extends]
        login_extends] by blast
qed

text \<open>A retry: what the trace looks like when a second dispatch follows a first.\<close>

lemma retry_shape:
  assumes x1: "tr1 = tr @ x1" "dispatches x1 = 0"
    and p2: "dispatch en s1 tr1 url = (Inr r, s2, tr2)"
    and st: "status r = 401"
    and x3: "tr3 = tr2 @ mid" "dispatches mid = 0"
    and p4: "dispatch en s3 tr3 url = (res, s', tr')"
  shows "\<exists>x1 tok1 r1 mid tok2.
      tr' = tr @ x1 @ [Fetched (TargetRequest url tok1) (Some r1)] @ mid
              @ [Fetched (TargetRequest url tok2)
                   (server en (tr @ x1 @ [Fetched (TargetRequest url tok1) (Some r1)] @ mid)
                      (TargetRequest url tok2))]
      \<and> dispatches x1 = 0 \<and> dispatches mid = 0
      \<and> server en (tr @ x1) (TargetRequest url tok1) = Some r1 \<and> status r1 = 401"
proof -
  from p2 have a: "server en tr1 (TargetRequest url (getAuthHeaders s1)) = Some r"
    and b: "tr2 = tr1 @ [Fetched (TargetRequest url (getAuthHeaders s1)) (Some r)]"
    by (auto simp: dispatch_result delivered_def split: option.splits)
  from p4 have c: "tr' = tr3 @ [Fetched (TargetRequest url (getAuthHeaders s3))
                      (server en tr3 (TargetRequest url (getAuthHeaders s3)))]"
    by (auto simp: dispatch_result)
  have "tr' = tr @ x1 @ [Fetched (TargetRequest url (getAuthHeaders s1)) (Some r)] @ mid
              @ [Fetched (TargetRequest url (getAuthHeaders s3))
                   (server en (tr @ x1 @ [Fetched (TargetRequest url (getAuthHeaders s1)) (Some r)] @ mid)
                      (TargetRequest url (getAuthHeaders s3)))]"
    using x1(1) x3(1) b c by simp
  moreover have "server en (tr @ x1) (TargetRequest url (getAuthHeaders s1)) = Some r"
    using a x1(1) by simp
  ultimately show ?thesis using x1(2) x3(2) st by blast
qed

subsection \<open>The usability check\<close>

text \<open>
  Claim C3, as the code has it. For an object with a non-empty access token, at a clock
  reading that is not negative, the check of line 115 is true exactly when \<open>expiresAt\<close>
  is present and the reading is at least 60 seconds before it (\<open>now \<le> expiresAt -
  60000\<close>); it is false when the reading is less than 60 seconds before \<open>expiresAt\<close>,
  past it, or \<open>expiresAt\<close> is absent. The comparison of line 71 is strict, so the
  reading exactly 60 seconds before \<open>expiresAt\<close> still counts as usable.
\<close>

theorem hasValidToken_iff:
  assumes "bearerToken s \<noteq> []" and "0 \<le> clock en tr"
  shows "fst (hasValidToken en s tr)
           \<longleftrightarrow> (\<exists>e. tokenExpiresAt s = Some e \<and> clock en tr \<le> e - 60000)"
  using assms by (auto simp: hasValidToken_result)

text \<open>
  The theorem at a token that expires at 2000000, read at 1000000: the check is true.
\<close>

theorem hasValidToken_iff_witness:
  "fst (hasValidToken offline (configured\<lparr>bearerToken := ''tok'', tokenExpiresAt := Some 2000000\<rparr>) [])
   \<and> (\<exists>e. tokenExpiresAt (configured\<lparr>bearerToken := ''tok'', tokenExpiresAt := Some 2000000\<rparr>) = Some e
          \<and> clock offline [] \<le> e - 60000)"
  using hasValidToken_iff [of "configured\<lparr>bearerToken := ''tok'', tokenExpiresAt := Some 2000000\<rparr>"
      offline "[]"]
  by (simp add: offline_def configured_def)

text \<open>
  Claim C3 as stated fails at the boundary: with \<open>expiresAt = 1060000\<close> and the clock at
  1000000 the current time is not more than 60 seconds before \<open>expiresAt\<close> (it is within
  60 seconds of it), and the check is true.
\<close>

theorem hasValidToken_boundary_counterexample:
  "fst (hasValidToken offline (configured\<lparr>bearerToken := ''tok'', tokenExpiresAt := Some 1060000\<rparr>) [])
   \<and> tokenExpiresAt (configured\<lparr>bearerToken := ''tok'', tokenExpiresAt := Some 1060000\<rparr>) = Some 1060000
   \<and> clock offline [] = 1000000
   \<and> \<not> (1000000 < (1060000::int) - 60000)"
  by (simp add: run_defs)

subsection \<open>After \<open>ensureAuthenticated\<close> returns\<close>

text \<open>
  Claim C1, as the code has it. Let every token answer of the server carry a non-empty
  access token and an \<open>expires_in\<close> of at least 60 seconds. Then after every execution
  of \<open>ensureAuthenticated\<close> that returns without throwing, the access token is
  non-empty, \<open>expiresAt\<close> is present, and the last reading of the clock that the call
  took is at least 60 seconds before \<open>expiresAt\<close>. On the hot path that reading is the
  one of the check; after a refresh or a login it is the time of receipt, from which
  \<open>expiresAt\<close> was computed (the callback runs after it). The code does not look at
  the tokens it receives, and does not check again.
\<close>

theorem ensureAuthenticated_usable:
  assumes ret: "ensureAuthenticated en s tr = (Inr (), s', tr')"
    and srv: "\<forall>h rq r d. server en h rq = Some r \<longrightarrow> ok r \<longrightarrow> body_json r = Some d
                \<longrightarrow> access_token d \<noteq> [] \<and> 60 \<le> expires_in d"
  shows "bearerToken s' \<noteq> [] \<and>
    (\<exists>e t. tokenExpiresAt s' = Some e \<and> last_reading tr' = Some t \<and> t \<le> e - 60000)"
  using ret
proof (cases rule: ensureAuthenticated_cases)
  case hot
  then show ?thesis
    by (auto simp: hasValidToken_result last_reading_append split: if_splits)
next
  case (refreshed tr0)
  then have "refreshAccessToken en s tr0 = (True, s', tr')"
    by (simp add: tryRefresh_def split: if_splits)
  from refresh_success [OF this] obtain r d where
    "server en tr0 (RefreshRequest (serverHost s) (refreshToken s)) = Some r" "ok r"
    "body_json r = Some d"
    and st: "storeTokens en s
        (tr0 @ [Fetched (RefreshRequest (serverHost s) (refreshToken s)) (Some r)]) d
          = (True, s', tr')"
    by blast
  with srv have "access_token d \<noteq> [] \<and> 60 \<le> expires_in d" by blast
  then show ?thesis using storeTokens_usable [OF st] by simp
next
  case (missing tr0)
  then show ?thesis by simp
next
  case (login_failed tr0 s1 tr1 e)
  then show ?thesis by simp
next
  case (logged_in tr0 s1 tr1 d)
  from login_success [OF logged_in(5)] obtain r where
    "server en tr1 (LoginRequest (serverHost s1) (email s1) (password s1)) = Some r" "ok r"
    "body_json r = Some d"
    and st: "storeTokens en s1
        (tr1 @ [Fetched (LoginRequest (serverHost s1) (email s1) (password s1)) (Some r)]) d
          = (True, s', tr')"
    by blast
  with srv have "access_token d \<noteq> [] \<and> 60 \<le> expires_in d" by blast
  then show ?thesis using storeTokens_usable [OF st] by simp
qed

text \<open>
  The theorem at a login that is granted tokens for an hour: the token is stored and
  expires at 4600000, an hour after the reading 1000000.
\<close>

theorem ensureAuthenticated_usable_witness:
  "bearerToken (fst (snd (ensureAuthenticated (granting 3600) configured []))) = ''new''
   \<and> tokenExpiresAt (fst (snd (ensureAuthenticated (granting 3600) configured []))) = Some 4600000
   \<and> last_reading (snd (snd (ensureAuthenticated (granting 3600) configured []))) = Some 1000000
   \<and> (\<exists>e t. tokenExpiresAt (fst (snd (ensureAuthenticated (granting 3600) configured []))) = Some e
        \<and> last_reading (snd (snd (ensureAuthenticated (granting 3600) configured []))) = Some t
        \<and> t \<le> e - 60000)"
proof -
  have run: "ensureAuthenticated (granting 3600) configured []
     = (Inr (), configured\<lparr>bearerToken := ''new'', refreshToken := ''r1'',
                  tokenExpiresAt := Some 4600000\<rparr>,
        [Fetched (LoginRequest ''h'' ''e'' ''p'')
           (Some (Response 200 ''OK'' (Some []) (Some (sample_tokens 3600)))),
         ClockRead 1000000])"
    by (simp add: run_defs)
  have srv: "\<forall>h rq r d. server (granting 3600) h rq = Some r \<longrightarrow> ok r \<longrightarrow> body_json r = Some d
                \<longrightarrow> access_token d \<noteq> [] \<and> 60 \<le> expires_in d"
    by (auto simp: granting_def sample_tokens_def)
  show ?thesis
    using ensureAuthenticated_usable [OF run srv] by (simp add: run)
qed

text \<open>
  Claim C1 as stated fails: a login that is granted tokens for 30 seconds returns
  without throwing, and leaves \<open>expiresAt = 1030000\<close> while the clock reads 1000000,
  which is not more than 60 seconds before it.
\<close>

theorem ensureAuthenticated_short_lived_counterexample:
  "ensureAuthenticated (granting 30) configured []
     = (Inr (), configured\<lparr>bearerToken := ''new'', refreshToken := ''r1'',
                  tokenExpiresAt := Some 1030000\<rparr>,
        [Fetched (LoginRequest ''h'' ''e'' ''p'')
           (Some (Response 200 ''OK'' (Some []) (Some (sample_tokens 30)))),
         ClockRead 1000000])
   \<and> clock (granting 30)
        [Fetched (LoginRequest ''h'' ''e'' ''p'')
           (Some (Response 200 ''OK'' (Some []) (Some (sample_tokens 30)))),
         ClockRead 1000000] = 1000000
   \<and> \<not> (1000000 < (1030000::int) - 60000)"
  by (simp add: run_defs)

subsection \<open>Dispatches of \<open>authenticatedFetch\<close>\<close>

text \<open>
  Claim C2. A call of \<open>authenticatedFetch\<close> dispatches the protected endpoint at most
  twice. When it dispatches twice, the second dispatch is the last thing the call does,
  and the caller gets what that dispatch gave, whatever its status (a second 401
  included): the response as it is, or the rejection of \<open>fetch\<close>. And it dispatches
  twice only as a retry after a 401: the trace of the call is then some events that
  are no dispatch, the first dispatch, answered with a response of status 401, some
  events that are no dispatch, and the second dispatch.
\<close>

theorem authenticatedFetch_dispatches:
  assumes run: "authenticatedFetch en s tr url = (res, s', tr')"
  shows "dispatches tr' \<le> dispatches tr + 2
    \<and> (dispatches tr' = dispatches tr + 2 \<longrightarrow>
         (\<exists>pre tok. tr' = pre @ [Fetched (TargetRequest url tok) (server en pre (TargetRequest url tok))]
            \<and> res = delivered (server en pre (TargetRequest url tok))))
    \<and> (dispatches tr' = dispatches tr + 2 \<longrightarrow>
         (\<exists>x1 tok1 r1 mid tok2.
            tr' = tr @ x1 @ [Fetched (TargetRequest url tok1) (Some r1)] @ mid
                    @ [Fetched (TargetRequest url tok2)
                         (server en (tr @ x1 @ [Fetched (TargetRequest url tok1) (Some r1)] @ mid)
                            (TargetRequest url tok2))]
            \<and> dispatches x1 = 0 \<and> dispatches mid = 0
            \<and> server en (tr @ x1) (TargetRequest url tok1) = Some r1 \<and> status r1 = 401))"
proof -
  obtain res1 s1 tr1 where e1: "ensureAuthenticated en s tr = (res1, s1, tr1)"
    by (cases "ensureAuthenticated en s tr")
  have d1: "dispatches tr1 = dispatches tr" using e1 by (rule ensure_dispatches)
  obtain x1 where x1: "tr1 = tr @ x1" "dispatches x1 = 0"
    using ensure_extends [OF e1] by blast
  show ?thesis
  proof (cases res1)
    case (Inl e)
    with run e1 d1 show ?thesis by (simp add: authenticatedFetch_def)
  next
    case (Inr u)
    obtain res2 s2 tr2 where p2: "dispatch en s1 tr1 url = (res2, s2, tr2)"
      by (cases "dispatch en s1 tr1 url")
    have d2: "dispatches tr2 = dispatches tr + 1"
      using dispatch_counts [OF p2] d1 by simp
    show ?thesis
    proof (cases res2)
      case (Inl e)
      with run e1 Inr p2 d2 show ?thesis by (simp add: authenticatedFetch_def)
    next
      case r: (Inr r)
      show ?thesis
      proof (cases "status r = 401")
        case False
        with run e1 Inr p2 r d2 show ?thesis by (simp add: authenticatedFetch_def)
      next
        case True
        obtain b s3 tr3 where t3: "tryRefresh en (s2\<lparr>bearerToken := []\<rparr>) tr2 = (b, s3, tr3)"
          by (cases "tryRefresh en (s2\<lparr>bearerToken := []\<rparr>) tr2")
        have d3: "dispatches tr3 = dispatches tr + 1"
          using tryRefresh_dispatches [OF t3] d2 by simp
        obtain x3 where x3: "tr3 = tr2 @ x3" "dispatches x3 = 0"
          using tryRefresh_extends [OF t3] by blast
        show ?thesis
        proof (cases b)
          case True
          with run e1 Inr p2 r \<open>status r = 401\<close> t3
          have p4: "dispatch en s3 tr3 url = (res, s', tr')" by (simp add: authenticatedFetch_def)
          from retry_shape [OF x1 p2 [unfolded r] \<open>status r = 401\<close> x3 p4]
            dispatch_counts [OF p4] d3
          show ?thesis by simp
        next
          case False
          obtain res4 s4 tr4 where e4: "ensureAuthenticated en s3 tr3 = (res4, s4, tr4)"
            by (cases "ensureAuthenticated en s3 tr3")
          have d4: "dispatches tr4 = dispatches tr + 1"
            using ensure_dispatches [OF e4] d3 by simp
          obtain x4 where x4: "tr4 = tr2 @ x4" "dispatches x4 = 0"
            using extends_trans [OF tryRefresh_extends [OF t3] ensure_extends [OF e4]] by blast
          show ?thesis
          proof (cases res4)
            case (Inl e)
            with run e1 Inr p2 r \<open>status r = 401\<close> t3 False e4 d4 show ?thesis
              by (simp add: authenticatedFetch_def)
          next
            case u4: (Inr u4)
            with run e1 Inr p2 r \<open>status r = 401\<close> t3 False e4
            have p4: "dispatch en s4 tr4 url = (res, s', tr')" by (simp add: authenticatedFetch_def)
            from retry_shape [OF x1 p2 [unfolded r] \<open>status r = 401\<close> x4 p4]
              dispatch_counts [OF p4] d4
            show ?thesis by simp
          qed
        qed
      qed
    qed
  qed
qed

text \<open>
  The theorem at a server that answers the protected endpoint with 401 every time: the
  valid token is rejected, a login follows, the retry is rejected too, and that second
  401 is what the caller gets, after two dispatches. Beside it, the same call at a
  server that answers with 200: one dispatch.
\<close>

theorem authenticatedFetch_dispatches_witness:
  "dispatches (snd (snd (authenticatedFetch (revoking 3600)
       (configured\<lparr>bearerToken := ''tok'', tokenExpiresAt := Some 2000000\<rparr>) [] ''u''))) = 2
   \<and> fst (authenticatedFetch (revoking 3600)
       (configured\<lparr>bearerToken := ''tok'', tokenExpiresAt := Some 2000000\<rparr>) [] ''u'')
     = Inr (Response 401 ''Unauthorized'' (Some []) None)
   \<and> snd (snd (authenticatedFetch (revoking 3600)
       (configured\<lparr>bearerToken := ''tok'', tokenExpiresAt := Some 2000000\<rparr>) [] ''u''))
     = [ClockRead 1000000,
        Fetched (TargetRequest ''u'' (Some ''tok''))
          (Some (Response 401 ''Unauthorized'' (Some []) None)),
        Fetched (LoginRequest ''h'' ''e'' ''p'')
          (Some (Response 200 ''OK'' (Some []) (Some (sample_tokens 3600)))),
        ClockRead 1000000,
        Fetched (TargetRequest ''u'' (Some ''new''))
          (Some (Response 401 ''Unauthorized'' (Some []) None))]
   \<and> dispatches (snd (snd (authenticatedFetch (granting 3600)
       (configured\<lparr>bearerToken := ''tok'', tokenExpiresAt := Some 2000000\<rparr>) [] ''u''))) = 1"
proof -
  have run: "authenticatedFetch (revoking 3600)
       (configured\<lparr>bearerToken := ''tok'', tokenExpiresAt := Some 2000000\<rparr>) [] ''u''
     = (Inr (Response 401 ''Unauthorized'' (Some []) None),
        configured\<lparr>bearerToken := ''new'', refreshToken := ''r1'', tokenExpiresAt := Some 4600000\<rparr>,
        [ClockRead 1000000,
         Fetched (TargetRequest ''u'' (Some ''tok''))
           (Some (Response 401 ''Unauthorized'' (Some []) None)),
         Fetched (LoginRequest ''h'' ''e'' ''p'')
           (Some (Response 200 ''OK'' (Some []) (Some (sample_tokens 3600)))),
         ClockRead 1000000,
         Fetched (TargetRequest ''u'' (Some ''new''))
           (Some (Response 401 ''Unauthorized'' (Some []) None))])"
    by (simp add: run_defs)
  have once: "dispatches (snd (snd (authenticatedFetch (granting 3600)
       (configured\<lparr>bearerToken := ''tok'', tokenExpiresAt := Some 2000000\<rparr>) [] ''u''))) = 1"
    by (simp add: run_defs dispatches_def)
  show ?thesis
    using authenticatedFetch_dispatches [OF run] once by (simp add: run dispatches_def)
qed

subsection \<open>A failed refresh\<close>

text \<open>
  Claim C4. Let \<open>refreshAccessToken\<close> attempt the exchange (a refresh token is present).
  When the exchange fails (\<open>fetch\<close> rejects, the response is not a success, or its body
  cannot be read), the method returns false with the refresh token and \<open>expiresAt\<close>
  cleared, after that one call of \<open>fetch\<close>. And whenever the method returns false, for
  whatever cause, the refresh token is empty and \<open>expiresAt\<close> is absent afterwards.
\<close>

theorem refresh_failure_clears:
  assumes "refreshToken s \<noteq> []"
  shows "((case server en tr (RefreshRequest (serverHost s) (refreshToken s)) of
             None \<Rightarrow> True
           | Some r \<Rightarrow> \<not> ok r \<or> body_json r = None) \<longrightarrow>
          refreshAccessToken en s tr
            = (False, s\<lparr>refreshToken := [], tokenExpiresAt := None\<rparr>,
               tr @ [Fetched (RefreshRequest (serverHost s) (refreshToken s))
                       (server en tr (RefreshRequest (serverHost s) (refreshToken s)))]))
    \<and> (\<not> fst (refreshAccessToken en s tr) \<longrightarrow>
          refreshToken (fst (snd (refreshAccessToken en s tr))) = []
          \<and> tokenExpiresAt (fst (snd (refreshAccessToken en s tr))) = None)"
  using assms
  by (auto simp: refreshAccessToken_def fetch_def clearRefresh_def storeTokens_result Let_def
      split: option.splits)

text \<open>
  The theorem at a refresh that the server answers with 403, and so fails.
\<close>

theorem refresh_failure_clears_witness:
  "refreshAccessToken denying
     (configured\<lparr>bearerToken := ''old'', refreshToken := ''r0'', tokenExpiresAt := Some 900000\<rparr>) []
   = (False,
      configured\<lparr>bearerToken := ''old'', refreshToken := [], tokenExpiresAt := None\<rparr>,
      [Fetched (RefreshRequest ''h'' ''r0'') (Some (Response 403 ''Forbidden'' (Some ''locked'') None))])
   \<and> refreshToken (fst (snd (refreshAccessToken denying
     (configured\<lparr>bearerToken := ''old'', refreshToken := ''r0'', tokenExpiresAt := Some 900000\<rparr>) []))) = []
   \<and> tokenExpiresAt (fst (snd (refreshAccessToken denying
     (configured\<lparr>bearerToken := ''old'', refreshToken := ''r0'', tokenExpiresAt := Some 900000\<rparr>) []))) = None"
  using refresh_failure_clears [of
      "configured\<lparr>bearerToken := ''old'', refreshToken := ''r0'', tokenExpiresAt := Some 900000\<rparr>"
      denying "[]"]
  by (simp add: denying_def configured_def ok_simps)

subsection \<open>Network-level failures\<close>

text \<open>
  Claim C5, as the code has it. A rejected \<open>fetch\<close> during refresh is caught:
  \<open>refreshAccessToken\<close> returns false with the refresh state cleared, and
  \<open>ensureAuthenticated\<close> goes on to the login path (the missing-credentials error, or
  the login exchange, whose outcome is its own). A rejected \<open>fetch\<close> during login is
  caught by nothing: \<open>login\<close> throws it to its caller, with no field changed.
\<close>

theorem transport_failure_paths:
  "(refreshToken s \<noteq> [] \<and> server en tr (RefreshRequest (serverHost s) (refreshToken s)) = None
      \<longrightarrow> refreshAccessToken en s tr
            = (False, s\<lparr>refreshToken := [], tokenExpiresAt := None\<rparr>,
               tr @ [Fetched (RefreshRequest (serverHost s) (refreshToken s)) None]))
   \<and> (refreshToken s \<noteq> [] \<and> hasValidToken en s tr = (False, tr0)
        \<and> server en tr0 (RefreshRequest (serverHost s) (refreshToken s)) = None
      \<longrightarrow> ensureAuthenticated en s tr
            = (if email s = [] \<or> password s = []
               then (Inl MissingCredentials, s\<lparr>refreshToken := [], tokenExpiresAt := None\<rparr>,
                     tr0 @ [Fetched (RefreshRequest (serverHost s) (refreshToken s)) None])
               else (case login en (s\<lparr>refreshToken := [], tokenExpiresAt := None\<rparr>)
                            (tr0 @ [Fetched (RefreshRequest (serverHost s) (refreshToken s)) None])
                            (email s) (password s) of
                  (Inl e, s2, tr2) \<Rightarrow> (Inl e, s2, tr2)
                | (Inr d, s2, tr2) \<Rightarrow> (Inr (), s2, tr2))))
   \<and> (server en tr (LoginRequest (serverHost s) em pw) = None
      \<longrightarrow> login en s tr em pw
            = (Inl FetchRejected, s, tr @ [Fetched (LoginRequest (serverHost s) em pw) None]))"
  by (simp add: ensureAuthenticated_def tryRefresh_def refreshAccessToken_def login_def
      fetch_def clearRefresh_def Let_def)

text \<open>
  The theorem with the network down and an expired token: the refresh fails and is
  absorbed, the login that follows fails and is thrown.
\<close>

theorem transport_failure_paths_witness:
  "refreshAccessToken offline
     (configured\<lparr>bearerToken := ''old'', refreshToken := ''r0'', tokenExpiresAt := Some 900000\<rparr>) []
   = (False, configured\<lparr>bearerToken := ''old'', refreshToken := [], tokenExpiresAt := None\<rparr>,
      [Fetched (RefreshRequest ''h'' ''r0'') None])
   \<and> ensureAuthenticated offline
     (configured\<lparr>bearerToken := ''old'', refreshToken := ''r0'', tokenExpiresAt := Some 900000\<rparr>) []
   = (Inl FetchRejected,
      configured\<lparr>bearerToken := ''old'', refreshToken := [], tokenExpiresAt := None\<rparr>,
      [ClockRead 1000000, Fetched (RefreshRequest ''h'' ''r0'') None,
       Fetched (LoginRequest ''h'' ''e'' ''p'') None])
   \<and> login offline
     (configured\<lparr>bearerToken := ''old'', refreshToken := ''r0'', tokenExpiresAt := Some 900000\<rparr>) []
       ''e'' ''p''
   = (Inl FetchRejected,
      configured\<lparr>bearerToken := ''old'', refreshToken := ''r0'', tokenExpiresAt := Some 900000\<rparr>,
      [Fetched (LoginRequest ''h'' ''e'' ''p'') None])"
proof -
  have hv: "hasValidToken offline
     (configured\<lparr>bearerToken := ''old'', refreshToken := ''r0'', tokenExpiresAt := Some 900000\<rparr>) []
     = (False, [ClockRead 1000000])"
    by (simp add: run_defs)
  have lg: "login offline
     (configured\<lparr>bearerToken := ''old'', refreshToken := [], tokenExpiresAt := None\<rparr>)
     [ClockRead 1000000, Fetched (RefreshRequest ''h'' ''r0'') None] ''e'' ''p''
     = (Inl FetchRejected,
        configured\<lparr>bearerToken := ''old'', refreshToken := [], tokenExpiresAt := None\<rparr>,
        [ClockRead 1000000, Fetched (RefreshRequest ''h'' ''r0'') None,
         Fetched (LoginRequest ''h'' ''e'' ''p'') None])"
    by (simp add: run_defs)
  show ?thesis
    using transport_failure_paths [of
      "configured\<lparr>bearerToken := ''old'', refreshToken := ''r0'', tokenExpiresAt := Some 900000\<rparr>"
      offline "[]" "[ClockRead 1000000]" "''e''" "''p''"] hv lg
    by (simp add: offline_def configured_def)
qed

text \<open>
  Claim C5 as stated fails for login: with the network down, \<open>login\<close> throws the
  rejection of \<open>fetch\<close> to its caller, and so does \<open>ensureAuthenticated\<close> on its login
  path.
\<close>

theorem login_transport_counterexample:
  "login offline configured [] ''e'' ''p''
     = (Inl FetchRejected, configured, [Fetched (LoginRequest ''h'' ''e'' ''p'') None])
   \<and> ensureAuthenticated offline configured []
     = (Inl FetchRejected, configured, [Fetched (LoginRequest ''h'' ''e'' ''p'') None])"
  by (simp add: run_defs)

subsection \<open>Missing credentials\<close>

text \<open>
  Claim C6. When the access token is not usable (the check of line 115 is false), no
  refresh token is present, and the email or the password is missing,
  \<open>ensureAuthenticated\<close> throws the missing-credentials error, calls \<open>fetch\<close> not once
  (neither refresh nor login is sent), and leaves every field as it was.
\<close>

theorem missing_credentials_no_network:
  assumes "\<not> fst (hasValidToken en s tr)" and "refreshToken s = []"
    and "email s = [] \<or> password s = []"
  shows "fst (ensureAuthenticated en s tr) = Inl MissingCredentials
    \<and> network_calls (snd (snd (ensureAuthenticated en s tr))) = network_calls tr
    \<and> fst (snd (ensureAuthenticated en s tr)) = s"
proof -
  obtain valid tr0 where hv: "hasValidToken en s tr = (valid, tr0)"
    by (cases "hasValidToken en s tr")
  with assms(1) have nv: "\<not> valid" by simp
  have "network_calls tr0 = network_calls tr"
    using hv by (auto simp: hasValidToken_result network_calls_def split: if_splits)
  with hv nv assms(2,3) show ?thesis
    by (simp add: ensureAuthenticated_def tryRefresh_def)
qed

text \<open>
  The theorem at an object with an expired token, no refresh token and no password, in
  front of a server that would grant everything: the error is thrown, and the only
  event is the reading of the clock.
\<close>

theorem missing_credentials_no_network_witness:
  "ensureAuthenticated (granting 3600)
     (configured\<lparr>bearerToken := ''old'', tokenExpiresAt := Some 900000, password := []\<rparr>) []
   = (Inl MissingCredentials,
      configured\<lparr>bearerToken := ''old'', tokenExpiresAt := Some 900000, password := []\<rparr>,
      [ClockRead 1000000])
   \<and> network_calls (snd (snd (ensureAuthenticated (granting 3600)
     (configured\<lparr>bearerToken := ''old'', tokenExpiresAt := Some 900000, password := []\<rparr>) []))) = []"
proof -
  have hv: "\<not> fst (hasValidToken (granting 3600)
     (configured\<lparr>bearerToken := ''old'', tokenExpiresAt := Some 900000, password := []\<rparr>) [])"
    by (simp add: run_defs)
  have rt: "refreshToken
     (configured\<lparr>bearerToken := ''old'', tokenExpiresAt := Some 900000, password := []\<rparr>) = []"
    by (simp add: configured_def)
  have cr: "email (configured\<lparr>bearerToken := ''old'', tokenExpiresAt := Some 900000, password := []\<rparr>) = []
     \<or> password (configured\<lparr>bearerToken := ''old'', tokenExpiresAt := Some 900000, password := []\<rparr>) = []"
    by simp
  show ?thesis
    using missing_credentials_no_network [OF hv rt cr]
    by (simp add: run_defs network_calls_def)
qed

subsection \<open>The persistence callback\<close>

text \<open>
  Claim C7. Let a callback be registered. Every \<open>login\<close> that returns its data, and
  every \<open>refreshAccessToken\<close> that returns true, has called the callback once, as the
  last thing it did, after the exchange and the reading of the clock, with the new
  access token, the new refresh token and the new expiry instant in that order: the
  three values the fields hold on return. The call has been awaited: the method
  returns with success only when the callback's promise has resolved.
\<close>

theorem notification_after_success:
  assumes "onTokenUpdate s = Some cb"
  shows "(login en s tr em pw = (Inr d, s1, tr1) \<longrightarrow>
            (\<exists>r t. server en tr (LoginRequest (serverHost s) em pw) = Some r
               \<and> body_json r = Some d
               \<and> t = clock en (tr @ [Fetched (LoginRequest (serverHost s) em pw) (Some r)])
               \<and> tr1 = tr @ [Fetched (LoginRequest (serverHost s) em pw) (Some r), ClockRead t,
                              Notified (access_token d) (refresh_token d) (t + expires_in d * 1000)]
               \<and> bearerToken s1 = access_token d \<and> refreshToken s1 = refresh_token d
               \<and> tokenExpiresAt s1 = Some (t + expires_in d * 1000)
               \<and> cb (access_token d) (refresh_token d) (t + expires_in d * 1000)))
    \<and> (refreshAccessToken en s tr = (True, s2, tr2) \<longrightarrow>
            (\<exists>r d2 t. server en tr (RefreshRequest (serverHost s) (refreshToken s)) = Some r
               \<and> body_json r = Some d2
               \<and> t = clock en (tr @ [Fetched (RefreshRequest (serverHost s) (refreshToken s)) (Some r)])
               \<and> tr2 = tr @ [Fetched (RefreshRequest (serverHost s) (refreshToken s)) (Some r),
                              ClockRead t,
                              Notified (access_token d2) (refresh_token d2) (t + expires_in d2 * 1000)]
               \<and> bearerToken s2 = access_token d2 \<and> refreshToken s2 = refresh_token d2
               \<and> tokenExpiresAt s2 = Some (t + expires_in d2 * 1000)
               \<and> cb (access_token d2) (refresh_token d2) (t + expires_in d2 * 1000)))"
proof (intro conjI impI)
  assume "login en s tr em pw = (Inr d, s1, tr1)"
  from login_success [OF this] obtain r where
    "server en tr (LoginRequest (serverHost s) em pw) = Some r" "body_json r = Some d"
    "storeTokens en s (tr @ [Fetched (LoginRequest (serverHost s) em pw) (Some r)]) d
       = (True, s1, tr1)"
    by blast
  with assms show "\<exists>r t. server en tr (LoginRequest (serverHost s) em pw) = Some r
               \<and> body_json r = Some d
               \<and> t = clock en (tr @ [Fetched (LoginRequest (serverHost s) em pw) (Some r)])
               \<and> tr1 = tr @ [Fetched (LoginRequest (serverHost s) em pw) (Some r), ClockRead t,
                              Notified (access_token d) (refresh_token d) (t + expires_in d * 1000)]
               \<and> bearerToken s1 = access_token d \<and> refreshToken s1 = refresh_token d
               \<and> tokenExpiresAt s1 = Some (t + expires_in d * 1000)
               \<and> cb (access_token d) (refresh_token d) (t + expires_in d * 1000)"
    by (auto simp: storeTokens_result)
next
  assume "refreshAccessToken en s tr = (True, s2, tr2)"
  from refresh_success [OF this] obtain r d2 where
    "server en tr (RefreshRequest (serverHost s) (refreshToken s)) = Some r"
    "body_json r = Some d2"
    "storeTokens en s (tr @ [Fetched (RefreshRequest (serverHost s) (refreshToken s)) (Some r)]) d2
       = (True, s2, tr2)"
    by blast
  with assms show "\<exists>r d2 t. server en tr (RefreshRequest (serverHost s) (refreshToken s)) = Some r
               \<and> body_json r = Some d2
               \<and> t = clock en (tr @ [Fetched (RefreshRequest (serverHost s) (refreshToken s)) (Some r)])
               \<and> tr2 = tr @ [Fetched (RefreshRequest (serverHost s) (refreshToken s)) (Some r),
                              ClockRead t,
                              Notified (access_token d2) (refresh_token d2) (t + expires_in d2 * 1000)]
               \<and> bearerToken s2 = access_token d2 \<and> refreshToken s2 = refresh_token d2
               \<and> tokenExpiresAt s2 = Some (t + expires_in d2 * 1000)
               \<and> cb (access_token d2) (refresh_token d2) (t + expires_in d2 * 1000)"
    by (auto simp: storeTokens_result)
qed

text \<open>
  The theorem at a login and at a refresh that are granted tokens for an hour, with a
  callback that resolves: the trace of each ends with the notification of the stored
  triple.
\<close>

theorem notification_after_success_witness:
  "snd (snd (login (granting 3600) (configured\<lparr>onTokenUpdate := Some resolving\<rparr>) []
        ''e'' ''p''))
   = [Fetched (LoginRequest ''h'' ''e'' ''p'')
        (Some (Response 200 ''OK'' (Some []) (Some (sample_tokens 3600)))),
      ClockRead 1000000, Notified ''new'' ''r1'' 4600000]
   \<and> snd (snd (refreshAccessToken (granting 3600)
        (configured\<lparr>refreshToken := ''r0'', onTokenUpdate := Some resolving\<rparr>) []))
   = [Fetched (RefreshRequest ''h'' ''r0'')
        (Some (Response 200 ''OK'' (Some []) (Some (sample_tokens 3600)))),
      ClockRead 1000000, Notified ''new'' ''r1'' 4600000]"
proof -
  have lg: "login (granting 3600) (configured\<lparr>onTokenUpdate := Some resolving\<rparr>) []
        ''e'' ''p''
    = (Inr (sample_tokens 3600),
       configured\<lparr>bearerToken := ''new'', refreshToken := ''r1'',
         tokenExpiresAt := Some 4600000, onTokenUpdate := Some resolving\<rparr>,
       [Fetched (LoginRequest ''h'' ''e'' ''p'')
          (Some (Response 200 ''OK'' (Some []) (Some (sample_tokens 3600)))),
        ClockRead 1000000, Notified ''new'' ''r1'' 4600000])"
    by (simp add: run_defs)
  have rf: "refreshAccessToken (granting 3600)
        (configured\<lparr>refreshToken := ''r0'', onTokenUpdate := Some resolving\<rparr>) []
    = (True,
       configured\<lparr>bearerToken := ''new'', refreshToken := ''r1'',
         tokenExpiresAt := Some 4600000, onTokenUpdate := Some resolving\<rparr>,
       [Fetched (RefreshRequest ''h'' ''r0'')
          (Some (Response 200 ''OK'' (Some []) (Some (sample_tokens 3600)))),
        ClockRead 1000000, Notified ''new'' ''r1'' 4600000])"
    by (simp add: run_defs)
  have cb1: "onTokenUpdate (configured\<lparr>onTokenUpdate := Some resolving\<rparr>)
      = Some resolving"
    by simp
  have cb2: "onTokenUpdate (configured\<lparr>refreshToken := ''r0'', onTokenUpdate := Some resolving\<rparr>)
      = Some resolving"
    by simp
  show ?thesis
    using notification_after_success [OF cb1, of "granting 3600" "[]" "''e''" "''p''"]
      notification_after_success [OF cb2, of "granting 3600" "[]"]
    by (simp add: lg rf)
qed

subsection \<open>What clearing leaves alone\<close>

text \<open>
  Claim C8. The assignments that clear credential fields (the access token after a 401,
  line 184; the refresh token and \<open>expiresAt\<close> after a failed refresh, lines 90 to 91
  and 107 to 108) do not write the email or the password, and neither does anything
  else in the methods that hold them: after \<open>refreshAccessToken\<close> and after
  \<open>authenticatedFetch\<close>, whatever their outcome, email and password are what they
  were.
\<close>

theorem clearing_keeps_fallback:
  "email (s\<lparr>bearerToken := []\<rparr>) = email s \<and> password (s\<lparr>bearerToken := []\<rparr>) = password s
   \<and> email (clearRefresh s) = email s \<and> password (clearRefresh s) = password s
   \<and> email (fst (snd (refreshAccessToken en s tr))) = email s
   \<and> password (fst (snd (refreshAccessToken en s tr))) = password s
   \<and> email (fst (snd (authenticatedFetch en s tr url))) = email s
   \<and> password (fst (snd (authenticatedFetch en s tr url))) = password s"
proof -
  have "same_config s (fst (snd (authenticatedFetch en s tr url)))"
    by (rule authenticatedFetch_frame [of en s tr url "fst (authenticatedFetch en s tr url)" _
          "snd (snd (authenticatedFetch en s tr url))"]) simp
  then show ?thesis
    using refresh_frame [of s en tr] by (simp add: same_config_def clearRefresh_def)
qed

text \<open>
  The theorem at a call that meets a 401, clears the token and logs in again, and at a
  refresh that the server refuses: email and password are still \<open>e\<close> and \<open>p\<close>.
\<close>

theorem clearing_keeps_fallback_witness:
  "email (fst (snd (authenticatedFetch (revoking 3600)
       (configured\<lparr>bearerToken := ''tok'', tokenExpiresAt := Some 2000000\<rparr>) [] ''u''))) = ''e''
   \<and> password (fst (snd (authenticatedFetch (revoking 3600)
       (configured\<lparr>bearerToken := ''tok'', tokenExpiresAt := Some 2000000\<rparr>) [] ''u''))) = ''p''
   \<and> email (fst (snd (refreshAccessToken denying (configured\<lparr>refreshToken := ''r0''\<rparr>) []))) = ''e''
   \<and> password (fst (snd (refreshAccessToken denying (configured\<lparr>refreshToken := ''r0''\<rparr>) []))) = ''p''"
  using clearing_keeps_fallback [of
      "configured\<lparr>bearerToken := ''tok'', tokenExpiresAt := Some 2000000\<rparr>" "revoking 3600" "[]" "''u''"]
    clearing_keeps_fallback [of "configured\<lparr>refreshToken := ''r0''\<rparr>" denying "[]" "''u''"]
  by (simp add: configured_def)

subsection \<open>A rejected login\<close>

text \<open>
  Claim C9. When the login exchange is answered with a status outside 200 to 299,
  \<open>login\<close> throws (the login-failed error with the status and the text, or the
  rejection of reading the text), every field of the object is as it was, and the only
  thing the call has done is that one \<open>fetch\<close>: the callback is not called.
\<close>

theorem login_rejected_unchanged:
  assumes "server en tr (LoginRequest (serverHost s) em pw) = Some r" and "\<not> ok r"
  shows "login en s tr em pw
    = (Inl (case body_text r of
              None \<Rightarrow> BodyUnreadable
            | Some errorText \<Rightarrow>
                LoginFailed (status r) (if errorText = [] then statusText r else errorText)),
       s, tr @ [Fetched (LoginRequest (serverHost s) em pw) (Some r)])"
  using assms by (simp add: login_def fetch_def Let_def split: option.splits)

text \<open>
  The theorem at a login that the server answers with 403, on an object that holds
  tokens and a callback: the error carries 403 and the text, and nothing else happens.
\<close>

theorem login_rejected_unchanged_witness:
  "login denying
     (configured\<lparr>bearerToken := ''old'', refreshToken := ''r0'', tokenExpiresAt := Some 900000,
        onTokenUpdate := Some resolving\<rparr>) [] ''e'' ''bad''
   = (Inl (LoginFailed 403 ''locked''),
      configured\<lparr>bearerToken := ''old'', refreshToken := ''r0'', tokenExpiresAt := Some 900000,
        onTokenUpdate := Some resolving\<rparr>,
      [Fetched (LoginRequest ''h'' ''e'' ''bad'')
         (Some (Response 403 ''Forbidden'' (Some ''locked'') None))])"
proof -
  have srv: "server denying [] (LoginRequest
      (serverHost (configured\<lparr>bearerToken := ''old'', refreshToken := ''r0'',
         tokenExpiresAt := Some 900000, onTokenUpdate := Some resolving\<rparr>)) ''e'' ''bad'')
     = Some (Response 403 ''Forbidden'' (Some ''locked'') None)"
    by (simp add: denying_def)
  have nok: "\<not> ok (Response 403 ''Forbidden'' (Some ''locked'') None)"
    by (simp add: ok_simps)
  show ?thesis
    using login_rejected_unchanged [OF srv nok] by (simp add: configured_def)
qed

subsection \<open>The access token after a failed refresh\<close>




end
